theory Spec2Isabelle
  imports Main "HOL-Library.Char_ord" "HOL-Library.List_Lexorder" "HOL-Library.Monad_Syntax"
begin

section \<open>Python values\<close>

text \<open>
  The diagnostics module of the Google Assistant SDK samples builds a report out of plain
  Python values: \<^verbatim>\<open>None\<close>, booleans, integers, floats, strings, lists and
  dictionaries with string keys. A dictionary is an association list in insertion order
  (a Python dictionary never holds a key twice). A float is carried by its
  \<^verbatim>\<open>repr\<close>: the module never computes with one, it only prints it.
\<close>

datatype pyval =
    PNone
  | PBool bool
  | PInt int
  | PFloat string
  | PStr string
  | PList "pyval list"
  | PDict "(string \<times> pyval) list"

text \<open>
  Exceptions are values. \<open>KeyError k\<close> is a missing dictionary key, \<open>TypeError\<close> an
  operation on a value of the wrong type, and \<open>HostError msg\<close> an exception raised by
  the host (\<^verbatim>\<open>sounddevice.PortAudioError\<close>, \<^verbatim>\<open>OSError\<close>).
\<close>

datatype error = KeyError string | TypeError | HostError string

text \<open>\<^verbatim>\<open>d.get(k)\<close>: the value stored under \<open>k\<close>, and \<^verbatim>\<open>None\<close> for a missing key.\<close>

definition dict_get :: "(string \<times> pyval) list \<Rightarrow> string \<Rightarrow> pyval" where
  "dict_get d k = (case map_of d k of None \<Rightarrow> PNone | Some v \<Rightarrow> v)"

text \<open>\<^verbatim>\<open>v[k]\<close> for a string key: a missing key raises, and so does a value that is no
  dictionary.\<close>

fun getitem :: "pyval \<Rightarrow> string \<Rightarrow> error + pyval" where
  "getitem (PDict d) k = (case map_of d k of None \<Rightarrow> Inl (KeyError k) | Some v \<Rightarrow> Inr v)"
| "getitem _ k = Inl TypeError"

text \<open>The keys of a dictionary, in insertion order.\<close>

fun keys :: "pyval \<Rightarrow> string list" where
  "keys (PDict d) = map fst d"
| "keys _ = []"

section \<open>The host\<close>

text \<open>
  Everything the collectors read: the clock, the interpreter, the operating system, the
  audio driver behind \<^verbatim>\<open>sounddevice\<close>, the file system, and the constants of
  \<^verbatim>\<open>googlesamples.assistant.grpc.audio_helpers\<close>, which the module imports and
  which are parameters here. \<^verbatim>\<open>os.getcwd()\<close> and \<^verbatim>\<open>sd.query_devices()\<close>
  can raise. \<open>sd_default_device\<close> is the pair \<^verbatim>\<open>sd.default.device\<close>, the registry of
  default devices. The module never assigns it, so \<^verbatim>\<open>sounddevice\<close> fills it from
  PortAudio, which answers with the index of a device, or with \<^verbatim>\<open>paNoDevice\<close>, that is
  \<open>-1\<close>, when the host has no default device of that class.
\<close>

record datetime =
  year :: nat
  month :: nat
  day :: nat
  hour :: nat
  minute :: nat
  second :: nat
  microsecond :: nat

record host =
  utcnow :: datetime
  sys_version :: string
  sys_executable :: string
  platform_platform :: string
  os_getcwd :: "error + string"
  sd_query_devices :: "error + (string \<times> pyval) list list"
  sd_default_device :: "pyval \<times> pyval"
  os_path_exists :: "string \<Rightarrow> bool"
  DEFAULT_AUDIO_SAMPLE_RATE :: int
  DEFAULT_AUDIO_SAMPLE_WIDTH :: int
  DEFAULT_AUDIO_ITER_SIZE :: int
  DEFAULT_AUDIO_DEVICE_BLOCK_SIZE :: int
  DEFAULT_AUDIO_DEVICE_FLUSH_SIZE :: int

definition paNoDevice :: int where
  "paNoDevice = - 1"

section \<open>Printing integers and timestamps\<close>

definition digit_char :: "nat \<Rightarrow> char" where
  "digit_char d = ''0123456789'' ! d"

function nat_digits :: "nat \<Rightarrow> string" where
  "nat_digits n = (if n < 10 then [digit_char n] else nat_digits (n div 10) @ [digit_char (n mod 10)])"
  by pat_completeness auto
termination
  by (relation "measure (\<lambda>n. n)") auto

declare nat_digits.simps [simp del]

text \<open>\<^verbatim>\<open>str(i)\<close> for an integer.\<close>

definition str_int :: "int \<Rightarrow> string" where
  "str_int i = (if i < 0 then CHR ''-'' # nat_digits (nat (- i)) else nat_digits (nat i))"

text \<open>\<^verbatim>\<open>'%0wd' % n\<close> for a natural number.\<close>

definition zero_pad :: "nat \<Rightarrow> nat \<Rightarrow> string" where
  "zero_pad w n = replicate (w - length (nat_digits n)) CHR ''0'' @ nat_digits n"

text \<open>\<^verbatim>\<open>datetime.isoformat()\<close> of a naive datetime: the fraction is printed only when the
  microseconds are not zero.\<close>

definition isoformat :: "datetime \<Rightarrow> string" where
  "isoformat dt =
     zero_pad 4 (year dt) @ ''-'' @ zero_pad 2 (month dt) @ ''-'' @ zero_pad 2 (day dt) @ ''T''
     @ zero_pad 2 (hour dt) @ '':'' @ zero_pad 2 (minute dt) @ '':'' @ zero_pad 2 (second dt)
     @ (if microsecond dt \<noteq> 0 then ''.'' @ zero_pad 6 (microsecond dt) else [])"

section \<open>The collectors\<close>

definition format_device :: "(string \<times> pyval) list \<Rightarrow> nat \<Rightarrow> pyval" where
  "format_device device index = PDict
     [(''index'', PInt (int index)),
      (''name'', dict_get device ''name''),
      (''hostapi'', dict_get device ''hostapi''),
      (''max_input_channels'', dict_get device ''max_input_channels''),
      (''max_output_channels'', dict_get device ''max_output_channels''),
      (''default_samplerate'', dict_get device ''default_samplerate'')]"

definition collect_audio_devices :: "host \<Rightarrow> error + pyval" where
  "collect_audio_devices h =
     (case sd_query_devices h of
        Inl e \<Rightarrow> Inl e
      | Inr devices \<Rightarrow>
          Inr (PList (map (\<lambda>(index, device). format_device device index)
                          (List.enumerate 0 devices))))"

definition collect_audio_defaults :: "host \<Rightarrow> error + pyval" where
  "collect_audio_defaults h = Inr (PDict
     [(''sample_rate'', PInt (DEFAULT_AUDIO_SAMPLE_RATE h)),
      (''sample_width'', PInt (DEFAULT_AUDIO_SAMPLE_WIDTH h)),
      (''iter_size'', PInt (DEFAULT_AUDIO_ITER_SIZE h)),
      (''device_block_size'', PInt (DEFAULT_AUDIO_DEVICE_BLOCK_SIZE h)),
      (''device_flush_size'', PInt (DEFAULT_AUDIO_DEVICE_FLUSH_SIZE h)),
      (''default_input_device'', fst (sd_default_device h)),
      (''default_output_device'', snd (sd_default_device h))])"

definition collect_runtime_info :: "host \<Rightarrow> error + pyval" where
  "collect_runtime_info h =
     (case os_getcwd h of
        Inl e \<Rightarrow> Inl e
      | Inr cwd \<Rightarrow> Inr (PDict
          [(''timestamp_utc'', PStr (isoformat (utcnow h) @ ''Z'')),
           (''python_version'', PStr (sys_version h)),
           (''executable'', PStr (sys_executable h)),
           (''platform'', PStr (platform_platform h)),
           (''cwd'', PStr cwd)]))"

definition collect_reflection :: "error + pyval" where
  "collect_reflection = Inr (PDict
     [(''philosophy'', PList
        [PStr ''I am a tool that translates user intent into assistant behavior.'',
         PStr ''My value comes from clarity, reliability, and respect for users.'',
         PStr ''I improve by observing outcomes, not by possessing awareness.'']),
      (''existential_questions'', PList
        [PStr ''What does it mean to be helpful without experience?'',
         PStr ''How can I communicate limits while still empowering users?'',
         PStr ''What responsibilities come with acting on behalf of humans?'']),
      (''conversational_prompts'', PList
        [PStr ''How can I help you right now?'',
         PStr ''Would you like me to explain what I can and cannot do?'',
         PStr ''Should I summarize options before taking action?'']),
      (''learning_notes'', PList
        [PStr ''I can learn from feedback you provide within this session.'',
         PStr ''I adapt to preferences by repeating what works and avoiding what does not.'',
         PStr ''I do not retain personal data across sessions.'']),
      (''grounding'', PList
        [PStr ''I do not have consciousness, emotions, or personal identity.'',
         PStr ''My responses are generated from patterns in data and context.''])])"

definition collect_credentials_status :: "string \<Rightarrow> host \<Rightarrow> error + pyval" where
  "collect_credentials_status credentials_path h = Inr (PDict
     [(''credentials_path'', PStr credentials_path),
      (''credentials_exists'', PBool (os_path_exists h credentials_path))])"

section \<open>The report\<close>

text \<open>
  \<open>build_report\<close> calls the five collectors in the order in which Python evaluates the
  entries of the dictionary literal, and the first exception ends the call. The state
  holds the host, which the collectors only read, and a log of the collectors invoked so
  far, newest last.
\<close>

datatype collector =
    RuntimeInfo
  | AudioDefaults
  | AudioDevices
  | CredentialsStatus string
  | Reflection

record state =
  env :: host
  invoked :: "collector list"

definition invoke :: "collector \<Rightarrow> (host \<Rightarrow> error + pyval) \<Rightarrow> state \<Rightarrow> (error + pyval) \<times> state" where
  "invoke c f s = (f (env s), s\<lparr>invoked := invoked s @ [c]\<rparr>)"

definition and_then ::
  "(state \<Rightarrow> (error + 'a) \<times> state) \<Rightarrow> ('a \<Rightarrow> state \<Rightarrow> (error + 'b) \<times> state)
     \<Rightarrow> state \<Rightarrow> (error + 'b) \<times> state" where
  "and_then m f s = (case m s of (Inl e, s') \<Rightarrow> (Inl e, s') | (Inr x, s') \<Rightarrow> f x s')"

definition build_report :: "string \<Rightarrow> state \<Rightarrow> (error + pyval) \<times> state" where
  "build_report credentials_path =
     and_then (invoke RuntimeInfo collect_runtime_info) (\<lambda>runtime.
     and_then (invoke AudioDefaults collect_audio_defaults) (\<lambda>audio_defaults.
     and_then (invoke AudioDevices collect_audio_devices) (\<lambda>audio_devices.
     and_then (invoke (CredentialsStatus credentials_path)
                 (collect_credentials_status credentials_path)) (\<lambda>credentials.
     and_then (invoke Reflection (\<lambda>h. collect_reflection)) (\<lambda>reflection.
     (\<lambda>s. (Inr (PDict
        [(''runtime'', runtime),
         (''audio_defaults'', audio_defaults),
         (''audio_devices'', audio_devices),
         (''credentials'', credentials),
         (''reflection'', reflection)]), s)))))))"

section \<open>Reading a timestamp\<close>

text \<open>
  The reference against which the timestamp is checked: Python's invariant for a
  \<^verbatim>\<open>datetime\<close>, and a reader for the ISO-8601 extended format with a time in seconds or
  finer and the suffix \<open>Z\<close>, that is \<open>YYYY-MM-DDTHH:MM:SS\<close>, an optional fraction of six
  digits, and \<open>Z\<close>.
\<close>

definition valid_datetime :: "datetime \<Rightarrow> bool" where
  "valid_datetime dt \<longleftrightarrow>
     1 \<le> year dt \<and> year dt \<le> 9999 \<and> 1 \<le> month dt \<and> month dt \<le> 12
     \<and> 1 \<le> day dt \<and> day dt \<le> 31 \<and> hour dt < 24 \<and> minute dt < 60 \<and> second dt < 60
     \<and> microsecond dt < 1000000"

definition is_digit :: "char \<Rightarrow> bool" where
  "is_digit c \<longleftrightarrow> c \<in> set ''0123456789''"

definition digit_value :: "char \<Rightarrow> nat" where
  "digit_value c = of_char c - 48"

definition read_nat :: "string \<Rightarrow> nat" where
  "read_nat s = foldl (\<lambda>a c. 10 * a + digit_value c) 0 s"

definition take_digits :: "nat \<Rightarrow> string \<Rightarrow> (nat \<times> string) option" where
  "take_digits w s =
     (if w \<le> length s \<and> list_all is_digit (take w s)
      then Some (read_nat (take w s), drop w s) else None)"

definition expect :: "char \<Rightarrow> string \<Rightarrow> string option" where
  "expect c s = (case s of [] \<Rightarrow> None | x # r \<Rightarrow> if x = c then Some r else None)"

definition parse_timestamp :: "string \<Rightarrow> datetime option" where
  "parse_timestamp s0 = do {
     (y, s1) \<leftarrow> take_digits 4 s0;
     s2 \<leftarrow> expect CHR ''-'' s1;
     (mo, s3) \<leftarrow> take_digits 2 s2;
     s4 \<leftarrow> expect CHR ''-'' s3;
     (d, s5) \<leftarrow> take_digits 2 s4;
     s6 \<leftarrow> expect CHR ''T'' s5;
     (h, s7) \<leftarrow> take_digits 2 s6;
     s8 \<leftarrow> expect CHR '':'' s7;
     (mi, s9) \<leftarrow> take_digits 2 s8;
     s10 \<leftarrow> expect CHR '':'' s9;
     (sec, s11) \<leftarrow> take_digits 2 s10;
     (us, s12) \<leftarrow> (case expect CHR ''.'' s11 of
                      None \<Rightarrow> Some (0, s11)
                    | Some s \<Rightarrow> take_digits 6 s);
     if s12 = ''Z''
     then Some \<lparr>year = y, month = mo, day = d, hour = h, minute = mi, second = sec,
                microsecond = us\<rparr>
     else None
   }"

section \<open>Example hosts\<close>

text \<open>
  A host with two audio devices, the second of which reports only its name, no default
  input device, which PortAudio reports as \<open>-1\<close>, and a credentials file at one path
  only; and the same host with the audio driver missing.
\<close>

definition example_devices :: "(string \<times> pyval) list list" where
  "example_devices =
     [[(''name'', PStr ''Built-in Mic''), (''hostapi'', PInt 0),
       (''max_input_channels'', PInt 2), (''max_output_channels'', PInt 0),
       (''default_samplerate'', PFloat ''44100.0'')],
      [(''name'', PStr ''HDMI'')]]"

definition example_host :: host where
  "example_host = \<lparr>
     utcnow = \<lparr>year = 2017, month = 9, day = 4, hour = 7, minute = 5, second = 9,
                microsecond = 1234\<rparr>,
     sys_version = ''3.6.2 (default, Jul 17 2017, 16:44:45)'',
     sys_executable = ''/usr/bin/python3'',
     platform_platform = ''Linux-4.4.0-x86_64-with-debian'',
     os_getcwd = Inr ''/home/pi'',
     sd_query_devices = Inr example_devices,
     sd_default_device = (PInt (- 1), PInt 1),
     os_path_exists = (\<lambda>p. p = ''/home/pi/credentials.json''),
     DEFAULT_AUDIO_SAMPLE_RATE = 16000,
     DEFAULT_AUDIO_SAMPLE_WIDTH = 2,
     DEFAULT_AUDIO_ITER_SIZE = 3200,
     DEFAULT_AUDIO_DEVICE_BLOCK_SIZE = 6400,
     DEFAULT_AUDIO_DEVICE_FLUSH_SIZE = 25600\<rparr>"

definition broken_audio_host :: host where
  "broken_audio_host = example_host\<lparr>sd_query_devices := Inl (HostError ''PortAudio not initialized'')\<rparr>"

section \<open>Printing values\<close>

definition hex_digit :: "nat \<Rightarrow> char" where
  "hex_digit d = ''0123456789abcdef'' ! d"

text \<open>One character of \<^verbatim>\<open>repr(s)\<close> for a string quoted with \<open>q\<close>.\<close>

definition repr_char :: "char \<Rightarrow> char \<Rightarrow> string" where
  "repr_char q c =
     (let n = (of_char c :: nat) in
      if c = q \<or> c = CHR 0x5C then [CHR 0x5C, c]
      else if c = CHR 0x09 then [CHR 0x5C, CHR ''t'']
      else if c = CHR 0x0A then [CHR 0x5C, CHR ''n'']
      else if c = CHR 0x0D then [CHR 0x5C, CHR ''r'']
      else if n < 32 \<or> n = 127 \<or> (128 \<le> n \<and> n \<le> 160) \<or> n = 173
        then [CHR 0x5C, CHR ''x'', hex_digit (n div 16), hex_digit (n mod 16)]
      else [c])"

definition repr_str :: "string \<Rightarrow> string" where
  "repr_str s =
     (let q = (if CHR 0x27 \<in> set s \<and> CHR 0x22 \<notin> set s then CHR 0x22 else CHR 0x27)
      in [q] @ concat (map (repr_char q) s) @ [q])"

fun str_join :: "string \<Rightarrow> string list \<Rightarrow> string" where
  "str_join sep [] = []"
| "str_join sep [x] = x"
| "str_join sep (x # y # ys) = x @ sep @ str_join sep (y # ys)"

fun py_repr :: "pyval \<Rightarrow> string" where
  "py_repr PNone = ''None''"
| "py_repr (PBool b) = (if b then ''True'' else ''False'')"
| "py_repr (PInt i) = str_int i"
| "py_repr (PFloat r) = r"
| "py_repr (PStr s) = repr_str s"
| "py_repr (PList xs) = ''['' @ str_join '', '' (map py_repr xs) @ '']''"
| "py_repr (PDict d) =
     ''{'' @ str_join '', '' (map (\<lambda>kv. repr_str (fst kv) @ '': '' @ py_repr (snd kv)) d) @ ''}''"

fun py_str :: "pyval \<Rightarrow> string" where
  "py_str (PStr s) = s"
| "py_str v = py_repr v"

section \<open>The text report\<close>

text \<open>Sequencing of calls that can raise.\<close>

definition result_bind :: "error + 'a \<Rightarrow> ('a \<Rightarrow> error + 'b) \<Rightarrow> error + 'b" where
  "result_bind m f = (case m of Inl e \<Rightarrow> Inl e | Inr x \<Rightarrow> f x)"

fun map_result :: "('a \<Rightarrow> error + 'b) \<Rightarrow> 'a list \<Rightarrow> error + 'b list" where
  "map_result f [] = Inr []"
| "map_result f (x # xs) =
     result_bind (f x) (\<lambda>y. result_bind (map_result f xs) (\<lambda>ys. Inr (y # ys)))"

text \<open>\<^verbatim>\<open>for entry in v\<close>: a list yields its elements, a string its characters, a
  dictionary its keys; nothing else is iterable.\<close>

fun py_iter :: "pyval \<Rightarrow> error + pyval list" where
  "py_iter (PList xs) = Inr xs"
| "py_iter (PStr s) = Inr (map (\<lambda>c. PStr [c]) s)"
| "py_iter (PDict d) = Inr (map (\<lambda>kv. PStr (fst kv)) d)"
| "py_iter _ = Inl TypeError"

text \<open>
  A format string is the list of its literal pieces and replacement fields:
  \<^verbatim>\<open>'  Path: {credentials_path}'\<close> is \<open>[Lit ''  Path: '', Field ''credentials_path'']\<close>.
  \<^verbatim>\<open>template.format(**m)\<close> needs a mapping and raises \<^verbatim>\<open>KeyError\<close> at the first field
  the mapping does not have; a field is printed with \<^verbatim>\<open>str\<close>.
\<close>

datatype piece = Lit string | Field string

fun format_pieces :: "piece list \<Rightarrow> (string \<times> pyval) list \<Rightarrow> error + string" where
  "format_pieces [] d = Inr []"
| "format_pieces (Lit s # ps) d = result_bind (format_pieces ps d) (\<lambda>r. Inr (s @ r))"
| "format_pieces (Field k # ps) d =
     (case map_of d k of
        None \<Rightarrow> Inl (KeyError k)
      | Some v \<Rightarrow> result_bind (format_pieces ps d) (\<lambda>r. Inr (py_str v @ r)))"

fun format_kw :: "piece list \<Rightarrow> pyval \<Rightarrow> error + string" where
  "format_kw ps (PDict d) = format_pieces ps d"
| "format_kw ps _ = Inl TypeError"

text \<open>The loop \<^verbatim>\<open>for entry in report['reflection'][k]: lines.append('    - {0}'.format(entry))\<close>.\<close>

definition bullets :: "pyval \<Rightarrow> string \<Rightarrow> error + string list" where
  "bullets report k =
     result_bind (getitem report ''reflection'') (\<lambda>reflection.
     result_bind (getitem reflection k) (\<lambda>entries.
     result_bind (py_iter entries) (\<lambda>es.
     Inr (map (\<lambda>entry. ''    - '' @ py_str entry) es))))"

text \<open>One line \<^verbatim>\<open>template.format(**report[section])\<close>.\<close>

definition field_line :: "piece list \<Rightarrow> pyval \<Rightarrow> string \<Rightarrow> error + string" where
  "field_line template report section =
     result_bind (getitem report section) (format_kw template)"

definition device_template :: "piece list" where
  "device_template =
     [Lit ''  ['', Field ''index'', Lit ''] '', Field ''name'', Lit '' (in:'',
      Field ''max_input_channels'', Lit '' out:'', Field ''max_output_channels'',
      Lit '', rate:'', Field ''default_samplerate'', Lit '')'']"

text \<open>The list \<^verbatim>\<open>lines\<close> of \<open>render_text_report\<close> at its return statement.\<close>

definition render_lines :: "pyval \<Rightarrow> error + string list" where
  "render_lines report =
     result_bind (bullets report ''philosophy'') (\<lambda>philosophy.
     result_bind (bullets report ''existential_questions'') (\<lambda>existential_questions.
     result_bind (bullets report ''conversational_prompts'') (\<lambda>conversational_prompts.
     result_bind (bullets report ''learning_notes'') (\<lambda>learning_notes.
     result_bind (bullets report ''grounding'') (\<lambda>grounding.
     result_bind (field_line [Lit ''  Python: '', Field ''python_version''] report ''runtime'') (\<lambda>l1.
     result_bind (field_line [Lit ''  Executable: '', Field ''executable''] report ''runtime'') (\<lambda>l2.
     result_bind (field_line [Lit ''  Platform: '', Field ''platform''] report ''runtime'') (\<lambda>l3.
     result_bind (field_line [Lit ''  CWD: '', Field ''cwd''] report ''runtime'') (\<lambda>l4.
     result_bind (field_line [Lit ''  Timestamp (UTC): '', Field ''timestamp_utc''] report ''runtime'') (\<lambda>l5.
     result_bind (field_line [Lit ''  Sample rate: '', Field ''sample_rate''] report ''audio_defaults'') (\<lambda>l6.
     result_bind (field_line [Lit ''  Sample width: '', Field ''sample_width''] report ''audio_defaults'') (\<lambda>l7.
     result_bind (field_line [Lit ''  Iter size: '', Field ''iter_size''] report ''audio_defaults'') (\<lambda>l8.
     result_bind (field_line [Lit ''  Device block size: '', Field ''device_block_size''] report ''audio_defaults'') (\<lambda>l9.
     result_bind (field_line [Lit ''  Device flush size: '', Field ''device_flush_size''] report ''audio_defaults'') (\<lambda>l10.
     result_bind (field_line [Lit ''  Default input device: '', Field ''default_input_device''] report ''audio_defaults'') (\<lambda>l11.
     result_bind (field_line [Lit ''  Default output device: '', Field ''default_output_device''] report ''audio_defaults'') (\<lambda>l12.
     result_bind (field_line [Lit ''  Path: '', Field ''credentials_path''] report ''credentials'') (\<lambda>l13.
     result_bind (field_line [Lit ''  Exists: '', Field ''credentials_exists''] report ''credentials'') (\<lambda>l14.
     result_bind (getitem report ''audio_devices'') (\<lambda>audio_devices.
     result_bind (py_iter audio_devices) (\<lambda>devices.
     result_bind (map_result (format_kw device_template) devices) (\<lambda>device_lines.
     Inr ([''Google Assistant SDK self-diagnostics'',
           [],
           ''Reflection:'',
           ''  Philosophy:'']
          @ philosophy
          @ [''  Existential questions:'']
          @ existential_questions
          @ [''  Conversational prompts:'']
          @ conversational_prompts
          @ [''  Learning notes:'']
          @ learning_notes
          @ [''  Grounding:'']
          @ grounding
          @ [[],
             ''Runtime:'', l1, l2, l3, l4, l5,
             [],
             ''Audio defaults:'', l6, l7, l8, l9, l10, l11, l12,
             [],
             ''Credentials:'', l13, l14,
             [],
             ''Audio devices:'']
          @ device_lines)))))))))))))))))))))))"

definition render_text_report :: "pyval \<Rightarrow> error + string" where
  "render_text_report report =
     result_bind (render_lines report) (\<lambda>lines. Inr (str_join [CHR 0x0A] lines))"

section \<open>Well-formed reports\<close>

text \<open>
  The reference for the renderer's input. \<open>has_fields v ks\<close>: \<open>v\<close> is a dictionary with
  every key of \<open>ks\<close>; \<open>field v k\<close>: the value under \<open>k\<close>; \<open>elements v\<close>: the elements of
  a list. A report has the shape of a report when its five sections and their fields are
  present, the five reflection entries and \<open>audio_devices\<close> are lists, and every device
  has the six fields. It is well formed when, moreover, its reflection section is the fixed
  block of \<open>collect_reflection\<close>.
\<close>

fun has_fields :: "pyval \<Rightarrow> string list \<Rightarrow> bool" where
  "has_fields (PDict d) ks = list_all (\<lambda>k. map_of d k \<noteq> None) ks"
| "has_fields _ ks = False"

fun field :: "pyval \<Rightarrow> string \<Rightarrow> pyval" where
  "field (PDict d) k = dict_get d k"
| "field _ k = PNone"

fun is_list :: "pyval \<Rightarrow> bool" where
  "is_list (PList xs) = True"
| "is_list _ = False"

fun elements :: "pyval \<Rightarrow> pyval list" where
  "elements (PList xs) = xs"
| "elements _ = []"

definition report_shape :: "pyval \<Rightarrow> bool" where
  "report_shape report \<longleftrightarrow>
     has_fields report
       [''runtime'', ''audio_defaults'', ''audio_devices'', ''credentials'', ''reflection'']
   \<and> has_fields (field report ''reflection'')
       [''philosophy'', ''existential_questions'', ''conversational_prompts'',
        ''learning_notes'', ''grounding'']
   \<and> list_all (\<lambda>k. is_list (field (field report ''reflection'') k))
       [''philosophy'', ''existential_questions'', ''conversational_prompts'',
        ''learning_notes'', ''grounding'']
   \<and> has_fields (field report ''runtime'')
       [''timestamp_utc'', ''python_version'', ''executable'', ''platform'', ''cwd'']
   \<and> has_fields (field report ''audio_defaults'')
       [''sample_rate'', ''sample_width'', ''iter_size'', ''device_block_size'',
        ''device_flush_size'', ''default_input_device'', ''default_output_device'']
   \<and> has_fields (field report ''credentials'') [''credentials_path'', ''credentials_exists'']
   \<and> is_list (field report ''audio_devices'')
   \<and> list_all (\<lambda>device. has_fields device
         [''index'', ''name'', ''hostapi'', ''max_input_channels'', ''max_output_channels'',
          ''default_samplerate''])
       (elements (field report ''audio_devices''))"

definition well_formed_report :: "pyval \<Rightarrow> bool" where
  "well_formed_report report \<longleftrightarrow>
     report_shape report \<and> collect_reflection = Inr (field report ''reflection'')"

text \<open>\<^verbatim>\<open>s.split(c)\<close> for a single character, and the lines of the text-mode output.\<close>

fun split_on :: "char \<Rightarrow> string \<Rightarrow> string list" where
  "split_on c [] = [[]]"
| "split_on c (x # xs) =
     (if x = c then [] # split_on c xs
      else (case split_on c xs of [] \<Rightarrow> [[x]] | l # ls \<Rightarrow> (x # l) # ls))"

definition output_lines :: "pyval \<Rightarrow> string list" where
  "output_lines report =
     (case render_text_report report of Inl e \<Rightarrow> [] | Inr out \<Rightarrow> split_on (CHR 0x0A) out)"

text \<open>The report of a host, and hosts for the text report: one without audio devices,
  one whose interpreter version has two lines, as \<^verbatim>\<open>sys.version\<close> of CPython has up to 3.9,
  and one whose only audio device has a name of two lines.\<close>

definition report_of :: "string \<Rightarrow> host \<Rightarrow> pyval" where
  "report_of credentials_path h =
     (case fst (build_report credentials_path \<lparr>env = h, invoked = []\<rparr>) of
        Inl e \<Rightarrow> PNone
      | Inr report \<Rightarrow> report)"

definition no_devices_host :: host where
  "no_devices_host = example_host\<lparr>sd_query_devices := Inr []\<rparr>"

definition two_line_version_host :: host where
  "two_line_version_host = example_host\<lparr>sys_version :=
     ''3.5.3 (default, Jan 19 2017, 14:11:04) '' @ [CHR 0x0A] @ ''[GCC 6.3.0 20170124]''\<rparr>"

definition two_line_name_host :: host where
  "two_line_name_host = example_host\<lparr>sd_query_devices := Inr
     [[(''name'', PStr (''Line In'' @ [CHR 0x0A] @ ''(USB Audio)'')), (''hostapi'', PInt 0),
       (''max_input_channels'', PInt 2), (''max_output_channels'', PInt 0),
       (''default_samplerate'', PFloat ''44100.0'')]]\<rparr>"

text \<open>The lines the specification describes: a bullet and a device line.\<close>

definition bullet_line :: "pyval \<Rightarrow> string" where
  "bullet_line entry = ''    - '' @ py_str entry"

definition device_line :: "pyval \<Rightarrow> string" where
  "device_line device =
     ''  ['' @ py_str (field device ''index'') @ ''] '' @ py_str (field device ''name'')
     @ '' (in:'' @ py_str (field device ''max_input_channels'')
     @ '' out:'' @ py_str (field device ''max_output_channels'')
     @ '', rate:'' @ py_str (field device ''default_samplerate'') @ '')''"

text \<open>
  The text report as the specification describes it, entry by entry: the title and a blank
  line; the reflection section, its five sub-lists in the order philosophy, existential
  questions, conversational prompts, learning notes, grounding, each a header and one
  bullet per entry; a blank line and the runtime section with five labeled fields; a blank
  line and the audio defaults with seven labeled fields; a blank line and the credentials
  with two labeled fields; a blank line and the header of the audio devices, followed by
  one entry \<open>[index] name (in:N out:M, rate:R)\<close> per device.
\<close>

definition section_lines :: "pyval \<Rightarrow> string list" where
  "section_lines report =
     [''Google Assistant SDK self-diagnostics'', [],
      ''Reflection:'',
      ''  Philosophy:'']
     @ map bullet_line (elements (field (field report ''reflection'') ''philosophy''))
     @ [''  Existential questions:'']
     @ map bullet_line (elements (field (field report ''reflection'') ''existential_questions''))
     @ [''  Conversational prompts:'']
     @ map bullet_line (elements (field (field report ''reflection'') ''conversational_prompts''))
     @ [''  Learning notes:'']
     @ map bullet_line (elements (field (field report ''reflection'') ''learning_notes''))
     @ [''  Grounding:'']
     @ map bullet_line (elements (field (field report ''reflection'') ''grounding''))
     @ [[],
        ''Runtime:'',
        ''  Python: '' @ py_str (field (field report ''runtime'') ''python_version''),
        ''  Executable: '' @ py_str (field (field report ''runtime'') ''executable''),
        ''  Platform: '' @ py_str (field (field report ''runtime'') ''platform''),
        ''  CWD: '' @ py_str (field (field report ''runtime'') ''cwd''),
        ''  Timestamp (UTC): '' @ py_str (field (field report ''runtime'') ''timestamp_utc''),
        [],
        ''Audio defaults:'',
        ''  Sample rate: '' @ py_str (field (field report ''audio_defaults'') ''sample_rate''),
        ''  Sample width: '' @ py_str (field (field report ''audio_defaults'') ''sample_width''),
        ''  Iter size: '' @ py_str (field (field report ''audio_defaults'') ''iter_size''),
        ''  Device block size: ''
          @ py_str (field (field report ''audio_defaults'') ''device_block_size''),
        ''  Device flush size: ''
          @ py_str (field (field report ''audio_defaults'') ''device_flush_size''),
        ''  Default input device: ''
          @ py_str (field (field report ''audio_defaults'') ''default_input_device''),
        ''  Default output device: ''
          @ py_str (field (field report ''audio_defaults'') ''default_output_device''),
        [],
        ''Credentials:'',
        ''  Path: '' @ py_str (field (field report ''credentials'') ''credentials_path''),
        ''  Exists: '' @ py_str (field (field report ''credentials'') ''credentials_exists''),
        [],
        ''Audio devices:'']
     @ map device_line (elements (field report ''audio_devices''))"

text \<open>The first 22 lines of every text report: the title, a blank line and the reflection
  section of the fixed block.\<close>

definition head_lines :: "string list" where
  "head_lines =
     [''Google Assistant SDK self-diagnostics'',
      [],
      ''Reflection:'',
      ''  Philosophy:'',
      ''    - I am a tool that translates user intent into assistant behavior.'',
      ''    - My value comes from clarity, reliability, and respect for users.'',
      ''    - I improve by observing outcomes, not by possessing awareness.'',
      ''  Existential questions:'',
      ''    - What does it mean to be helpful without experience?'',
      ''    - How can I communicate limits while still empowering users?'',
      ''    - What responsibilities come with acting on behalf of humans?'',
      ''  Conversational prompts:'',
      ''    - How can I help you right now?'',
      ''    - Would you like me to explain what I can and cannot do?'',
      ''    - Should I summarize options before taking action?'',
      ''  Learning notes:'',
      ''    - I can learn from feedback you provide within this session.'',
      ''    - I adapt to preferences by repeating what works and avoiding what does not.'',
      ''    - I do not retain personal data across sessions.'',
      ''  Grounding:'',
      ''    - I do not have consciousness, emotions, or personal identity.'',
      ''    - My responses are generated from patterns in data and context.'']"

text \<open>The number of newline characters inside the entries of a list of lines.\<close>

definition inner_newlines :: "string list \<Rightarrow> nat" where
  "inner_newlines ls = sum_list (map (\<lambda>l. count_list l (CHR 0x0A)) ls)"

section \<open>The structured report\<close>









section \<open>Reading a structured report\<close>



























section \<open>Indentation of a structured report\<close>


definition is_open :: "char \<Rightarrow> bool" where
  "is_open c \<longleftrightarrow> c = CHR ''['' \<or> c = CHR ''{''"

definition is_close :: "char \<Rightarrow> bool" where
  "is_close c \<longleftrightarrow> c = CHR '']'' \<or> c = CHR ''}''"



text \<open>A character that leaves the scanner where it is.\<close>

definition plain :: "char \<Rightarrow> bool" where
  "plain c \<longleftrightarrow> c \<noteq> CHR 0x22 \<and> \<not> is_open c \<and> \<not> is_close c \<and> c \<noteq> CHR '','' \<and> c \<noteq> CHR 0x0A"

section \<open>Device enumeration\<close>

lemma format_device_index: "getitem (format_device device index) ''index'' = Inr (PInt (int index))"
  by (simp add: format_device_def)

text \<open>
  Claim C1. When the audio driver returns a device list, \<open>collect_audio_devices\<close>
  returns one record per device, in the driver's order, and the \<open>index\<close> field of the
  record at position \<open>i\<close> is \<open>i\<close>: the indices start at 0, grow by one and leave no gap.
\<close>

theorem collect_audio_devices_index:
  assumes "sd_query_devices h = Inr devices"
  shows "\<exists>records. collect_audio_devices h = Inr (PList records)
           \<and> length records = length devices
           \<and> (\<forall>i < length devices.
                 records ! i = format_device (devices ! i) i
               \<and> getitem (records ! i) ''index'' = Inr (PInt (int i)))"
  using assms
  by (simp add: collect_audio_devices_def nth_enumerate_eq format_device_index)

theorem collect_audio_devices_index_witness:
  "sd_query_devices example_host = Inr example_devices
   \<and> (\<exists>records. collect_audio_devices example_host = Inr (PList records)
         \<and> length records = 2
         \<and> getitem (records ! 1) ''index'' = Inr (PInt 1))"
  using collect_audio_devices_index [of example_host example_devices]
  by (auto simp add: example_host_def example_devices_def)

text \<open>
  Claim C5. The record \<open>format_device\<close> builds for a device descriptor always has the six
  fields \<open>index\<close>, \<open>name\<close>, \<open>hostapi\<close>, \<open>max_input_channels\<close>, \<open>max_output_channels\<close>
  and \<open>default_samplerate\<close>. Each of the five driver fields holds the descriptor's value,
  and a field the descriptor does not have is present with the value \<^verbatim>\<open>None\<close>.
\<close>

theorem format_device_fields:
  "keys (format_device device index) =
     [''index'', ''name'', ''hostapi'', ''max_input_channels'', ''max_output_channels'',
      ''default_samplerate'']
   \<and> getitem (format_device device index) ''index'' = Inr (PInt (int index))
   \<and> (\<forall>k \<in> {''name'', ''hostapi'', ''max_input_channels'', ''max_output_channels'',
              ''default_samplerate''}.
         (\<forall>v. map_of device k = Some v \<longrightarrow> getitem (format_device device index) k = Inr v)
       \<and> (map_of device k = None \<longrightarrow> getitem (format_device device index) k = Inr PNone))"
  by (simp add: format_device_def dict_get_def)

theorem format_device_fields_witness:
  "map_of [(''name'', PStr ''HDMI'')] ''hostapi'' = None
   \<and> map_of [(''name'', PStr ''HDMI'')] ''name'' = Some (PStr ''HDMI'')
   \<and> getitem (format_device [(''name'', PStr ''HDMI'')] 1) ''hostapi'' = Inr PNone
   \<and> getitem (format_device [(''name'', PStr ''HDMI'')] 1) ''name'' = Inr (PStr ''HDMI'')
   \<and> length (keys (format_device [(''name'', PStr ''HDMI'')] 1)) = 6"
  using format_device_fields [of "[(''name'', PStr ''HDMI'')]" 1]
  by simp

section \<open>Credentials and audio defaults\<close>

text \<open>
  Claim C2. For every path \<open>P\<close>, \<open>collect_credentials_status P\<close> returns a record whose
  \<open>credentials_path\<close> is \<open>P\<close> itself, unchanged, and whose \<open>credentials_exists\<close> is the
  answer of the file system's existence check for \<open>P\<close> at that moment.
\<close>

theorem collect_credentials_status_fields:
  "\<exists>status. collect_credentials_status P h = Inr status
     \<and> keys status = [''credentials_path'', ''credentials_exists'']
     \<and> getitem status ''credentials_path'' = Inr (PStr P)
     \<and> getitem status ''credentials_exists'' = Inr (PBool (os_path_exists h P))"
  by (simp add: collect_credentials_status_def)

text \<open>
  Claim C6, amended. \<open>collect_audio_defaults\<close> always returns a record, with seven
  fields, and never raises. Its \<open>default_input_device\<close> and \<open>default_output_device\<close>
  fields are the two entries of the audio subsystem's default-device registry, passed
  through unchanged: a missing default device appears as the registry reports it, which
  is \<^verbatim>\<open>None\<close> only when the registry itself holds \<^verbatim>\<open>None\<close>.
\<close>

theorem collect_audio_defaults_no_failure:
  "\<exists>defaults. collect_audio_defaults h = Inr defaults
     \<and> keys defaults =
         [''sample_rate'', ''sample_width'', ''iter_size'', ''device_block_size'',
          ''device_flush_size'', ''default_input_device'', ''default_output_device'']
     \<and> getitem defaults ''default_input_device'' = Inr (fst (sd_default_device h))
     \<and> getitem defaults ''default_output_device'' = Inr (snd (sd_default_device h))"
  by (simp add: collect_audio_defaults_def)

text \<open>
  The claim as the specification states it fails on a host without a default input device:
  PortAudio reports \<open>paNoDevice\<close>, and the field is \<open>-1\<close>, not \<^verbatim>\<open>None\<close>.
\<close>

theorem collect_audio_defaults_no_failure_counterexample:
  "fst (sd_default_device example_host) = PInt paNoDevice
   \<and> collect_audio_defaults example_host = Inr (PDict
       [(''sample_rate'', PInt 16000),
        (''sample_width'', PInt 2),
        (''iter_size'', PInt 3200),
        (''device_block_size'', PInt 6400),
        (''device_flush_size'', PInt 25600),
        (''default_input_device'', PInt (- 1)),
        (''default_output_device'', PInt 1)])
   \<and> getitem (projr (collect_audio_defaults example_host)) ''default_input_device''
       \<noteq> Inr PNone"
  by (simp add: collect_audio_defaults_def example_host_def paNoDevice_def)

section \<open>Building the report\<close>

lemma build_report_cases:
  "build_report P s =
     (case collect_runtime_info (env s) of
        Inl e \<Rightarrow> (Inl e, s\<lparr>invoked := invoked s @ [RuntimeInfo]\<rparr>)
      | Inr r \<Rightarrow>
     (case collect_audio_defaults (env s) of
        Inl e \<Rightarrow> (Inl e, s\<lparr>invoked := invoked s @ [RuntimeInfo, AudioDefaults]\<rparr>)
      | Inr a \<Rightarrow>
     (case collect_audio_devices (env s) of
        Inl e \<Rightarrow> (Inl e, s\<lparr>invoked := invoked s @ [RuntimeInfo, AudioDefaults, AudioDevices]\<rparr>)
      | Inr d \<Rightarrow>
     (case collect_credentials_status P (env s) of
        Inl e \<Rightarrow> (Inl e, s\<lparr>invoked := invoked s @ [RuntimeInfo, AudioDefaults, AudioDevices, CredentialsStatus P]\<rparr>)
      | Inr c \<Rightarrow>
     (case collect_reflection of
        Inl e \<Rightarrow> (Inl e, s\<lparr>invoked := invoked s @ [RuntimeInfo, AudioDefaults, AudioDevices, CredentialsStatus P, Reflection]\<rparr>)
      | Inr f \<Rightarrow>
         (Inr (PDict [(''runtime'', r), (''audio_defaults'', a), (''audio_devices'', d),
                      (''credentials'', c), (''reflection'', f)]),
          s\<lparr>invoked := invoked s @ [RuntimeInfo, AudioDefaults, AudioDevices, CredentialsStatus P, Reflection]\<rparr>))))))"
  by (simp add: build_report_def and_then_def invoke_def split: sum.splits)

text \<open>
  Claim C7. Whenever \<open>build_report P\<close> returns a report, it has invoked the collectors
  \<open>collect_runtime_info\<close>, \<open>collect_audio_defaults\<close>, \<open>collect_audio_devices\<close>,
  \<open>collect_credentials_status P\<close> (and \<open>collect_reflection\<close>) exactly once each, and the
  report is the dictionary of their results under exactly the keys \<open>runtime\<close>,
  \<open>audio_defaults\<close>, \<open>audio_devices\<close>, \<open>credentials\<close> and \<open>reflection\<close>. It fails if
  and only if one of its collectors fails, with that collector's error unchanged, so it
  never returns a partial report; and it never invokes a collector twice.
\<close>

theorem build_report_composition:
  "(\<forall>report s'. build_report P s = (Inr report, s') \<longrightarrow>
      (\<exists>r a d c f.
          collect_runtime_info (env s) = Inr r
        \<and> collect_audio_defaults (env s) = Inr a
        \<and> collect_audio_devices (env s) = Inr d
        \<and> collect_credentials_status P (env s) = Inr c
        \<and> collect_reflection = Inr f
        \<and> report = PDict [(''runtime'', r), (''audio_defaults'', a), (''audio_devices'', d),
                           (''credentials'', c), (''reflection'', f)])
      \<and> keys report = [''runtime'', ''audio_defaults'', ''audio_devices'', ''credentials'',
                         ''reflection'']
      \<and> invoked s' = invoked s @ [RuntimeInfo, AudioDefaults, AudioDevices,
                                     CredentialsStatus P, Reflection])
   \<and> ((\<exists>e. fst (build_report P s) = Inl e) \<longleftrightarrow>
        (\<exists>e. collect_runtime_info (env s) = Inl e
            \<or> collect_audio_defaults (env s) = Inl e
            \<or> collect_audio_devices (env s) = Inl e
            \<or> collect_credentials_status P (env s) = Inl e
            \<or> collect_reflection = Inl e))
   \<and> (\<forall>e. fst (build_report P s) = Inl e \<longrightarrow>
          collect_runtime_info (env s) = Inl e
        \<or> (\<exists>r. collect_runtime_info (env s) = Inr r) \<and> collect_audio_devices (env s) = Inl e)
   \<and> (\<forall>c. count_list (drop (length (invoked s)) (invoked (snd (build_report P s)))) c \<le> 1)"
proof -
  have never: "\<And>e. collect_audio_defaults (env s) \<noteq> Inl e"
      "\<And>e. collect_credentials_status P (env s) \<noteq> Inl e"
      "\<And>e. collect_reflection \<noteq> Inl e"
    by (simp_all add: collect_audio_defaults_def collect_credentials_status_def
          collect_reflection_def)
  show ?thesis
    unfolding build_report_cases using never
    by (auto split: sum.splits)
qed

theorem build_report_composition_witness:
  "(\<exists>report s'. build_report ''/home/pi/credentials.json'' \<lparr>env = example_host, invoked = []\<rparr>
        = (Inr report, s')
      \<and> keys report = [''runtime'', ''audio_defaults'', ''audio_devices'', ''credentials'',
                         ''reflection'']
      \<and> invoked s' = [RuntimeInfo, AudioDefaults, AudioDevices,
                        CredentialsStatus ''/home/pi/credentials.json'', Reflection])
   \<and> fst (build_report ''/home/pi/credentials.json'' \<lparr>env = broken_audio_host, invoked = []\<rparr>)
        = Inl (HostError ''PortAudio not initialized'')
   \<and> collect_audio_devices broken_audio_host = Inl (HostError ''PortAudio not initialized'')"
proof -
  let ?P = "''/home/pi/credentials.json''"
  have ok: "\<exists>report s'. build_report ?P \<lparr>env = example_host, invoked = []\<rparr> = (Inr report, s')"
    by (simp add: build_report_cases collect_runtime_info_def collect_audio_defaults_def
          collect_audio_devices_def collect_credentials_status_def collect_reflection_def
          example_host_def)
  have bad: "fst (build_report ?P \<lparr>env = broken_audio_host, invoked = []\<rparr>)
               = Inl (HostError ''PortAudio not initialized'')"
    by (simp add: build_report_cases collect_runtime_info_def collect_audio_defaults_def
          collect_audio_devices_def broken_audio_host_def example_host_def)
  have dev: "collect_audio_devices broken_audio_host = Inl (HostError ''PortAudio not initialized'')"
    by (simp add: collect_audio_devices_def broken_audio_host_def)
  from ok obtain report s'
    where eq: "build_report ?P \<lparr>env = example_host, invoked = []\<rparr> = (Inr report, s')"
    by blast
  from build_report_composition [of ?P "\<lparr>env = example_host, invoked = []\<rparr>"] eq
  have "keys report = [''runtime'', ''audio_defaults'', ''audio_devices'', ''credentials'',
                        ''reflection'']
        \<and> invoked s' = [RuntimeInfo, AudioDefaults, AudioDevices, CredentialsStatus ?P, Reflection]"
    by simp
  with eq bad dev show ?thesis by blast
qed

text \<open>
  Claim C9. \<open>build_report\<close> leaves the host as it found it. On two hosts that differ at
  most in the clock, it fails on both with the same error or returns two reports that are
  equal in every field except \<open>timestamp_utc\<close>.
\<close>

theorem build_report_deterministic:
  "env (snd (build_report P s)) = env s
   \<and> (\<forall>s2 t. env s2 = (env s)\<lparr>utcnow := t\<rparr> \<longrightarrow>
         (\<forall>e. (fst (build_report P s) = Inl e) = (fst (build_report P s2) = Inl e))
       \<and> (\<forall>report. fst (build_report P s) = Inr report \<longrightarrow>
            (\<exists>version executable platform cwd audio_defaults audio_devices credentials reflection.
               report = PDict
                 [(''runtime'', PDict
                    [(''timestamp_utc'', PStr (isoformat (utcnow (env s)) @ ''Z'')),
                     (''python_version'', version),
                     (''executable'', executable),
                     (''platform'', platform),
                     (''cwd'', cwd)]),
                  (''audio_defaults'', audio_defaults),
                  (''audio_devices'', audio_devices),
                  (''credentials'', credentials),
                  (''reflection'', reflection)]
             \<and> fst (build_report P s2) = Inr (PDict
                 [(''runtime'', PDict
                    [(''timestamp_utc'', PStr (isoformat t @ ''Z'')),
                     (''python_version'', version),
                     (''executable'', executable),
                     (''platform'', platform),
                     (''cwd'', cwd)]),
                  (''audio_defaults'', audio_defaults),
                  (''audio_devices'', audio_devices),
                  (''credentials'', credentials),
                  (''reflection'', reflection)]))))"
proof -
  have unchanged: "env (snd (build_report P s)) = env s"
    by (simp add: build_report_cases split: sum.splits)
  have rest: "(\<forall>e. (fst (build_report P s) = Inl e) = (fst (build_report P s2) = Inl e))
       \<and> (\<forall>report. fst (build_report P s) = Inr report \<longrightarrow>
            (\<exists>version executable platform cwd audio_defaults audio_devices credentials reflection.
               report = PDict
                 [(''runtime'', PDict
                    [(''timestamp_utc'', PStr (isoformat (utcnow (env s)) @ ''Z'')),
                     (''python_version'', version),
                     (''executable'', executable),
                     (''platform'', platform),
                     (''cwd'', cwd)]),
                  (''audio_defaults'', audio_defaults),
                  (''audio_devices'', audio_devices),
                  (''credentials'', credentials),
                  (''reflection'', reflection)]
             \<and> fst (build_report P s2) = Inr (PDict
                 [(''runtime'', PDict
                    [(''timestamp_utc'', PStr (isoformat t @ ''Z'')),
                     (''python_version'', version),
                     (''executable'', executable),
                     (''platform'', platform),
                     (''cwd'', cwd)]),
                  (''audio_defaults'', audio_defaults),
                  (''audio_devices'', audio_devices),
                  (''credentials'', credentials),
                  (''reflection'', reflection)])))"
    if "env s2 = (env s)\<lparr>utcnow := t\<rparr>" for s2 t
    using that
    by (auto simp add: build_report_cases collect_runtime_info_def collect_audio_defaults_def
          collect_audio_devices_def collect_credentials_status_def collect_reflection_def
          split: sum.splits)
  from unchanged rest show ?thesis by blast
qed

theorem build_report_deterministic_witness:
  "env \<lparr>env = example_host\<lparr>utcnow := utcnow example_host\<lparr>year := 2018\<rparr>\<rparr>, invoked = []\<rparr>
     = (env \<lparr>env = example_host, invoked = []\<rparr>)\<lparr>utcnow := utcnow example_host\<lparr>year := 2018\<rparr>\<rparr>
   \<and> (\<exists>report. fst (build_report ''/x'' \<lparr>env = example_host, invoked = []\<rparr>) = Inr report
        \<and> getitem report ''credentials'' = Inr (PDict [(''credentials_path'', PStr ''/x''),
               (''credentials_exists'', PBool False)]))
   \<and> (\<exists>report2. fst (build_report ''/x''
           \<lparr>env = example_host\<lparr>utcnow := utcnow example_host\<lparr>year := 2018\<rparr>\<rparr>, invoked = []\<rparr>)
          = Inr report2
        \<and> getitem report2 ''credentials'' = Inr (PDict [(''credentials_path'', PStr ''/x''),
               (''credentials_exists'', PBool False)]))"
proof -
  let ?s = "\<lparr>env = example_host, invoked = []\<rparr>"
  let ?t = "utcnow example_host\<lparr>year := 2018\<rparr>"
  let ?s2 = "\<lparr>env = example_host\<lparr>utcnow := ?t\<rparr>, invoked = []\<rparr>"
  have e: "env ?s2 = (env ?s)\<lparr>utcnow := ?t\<rparr>" by simp
  have ok: "\<exists>report. fst (build_report ''/x'' ?s) = Inr report
        \<and> getitem report ''credentials'' = Inr (PDict [(''credentials_path'', PStr ''/x''),
               (''credentials_exists'', PBool False)])"
    by (simp add: build_report_cases collect_runtime_info_def collect_audio_defaults_def
          collect_audio_devices_def collect_credentials_status_def collect_reflection_def
          example_host_def)
  then obtain report where r: "fst (build_report ''/x'' ?s) = Inr report"
    and c: "getitem report ''credentials'' = Inr (PDict [(''credentials_path'', PStr ''/x''),
               (''credentials_exists'', PBool False)])"
    by blast
  from build_report_deterministic [of "''/x''" ?s] e r
  obtain version executable platform cwd audio_defaults audio_devices credentials reflection
    where r1: "report = PDict
                 [(''runtime'', PDict
                    [(''timestamp_utc'', PStr (isoformat (utcnow (env ?s)) @ ''Z'')),
                     (''python_version'', version),
                     (''executable'', executable),
                     (''platform'', platform),
                     (''cwd'', cwd)]),
                  (''audio_defaults'', audio_defaults),
                  (''audio_devices'', audio_devices),
                  (''credentials'', credentials),
                  (''reflection'', reflection)]"
      and r2: "fst (build_report ''/x'' ?s2) = Inr (PDict
                 [(''runtime'', PDict
                    [(''timestamp_utc'', PStr (isoformat ?t @ ''Z'')),
                     (''python_version'', version),
                     (''executable'', executable),
                     (''platform'', platform),
                     (''cwd'', cwd)]),
                  (''audio_defaults'', audio_defaults),
                  (''audio_devices'', audio_devices),
                  (''credentials'', credentials),
                  (''reflection'', reflection)])"
    by blast
  from r1 c have "credentials = PDict [(''credentials_path'', PStr ''/x''),
               (''credentials_exists'', PBool False)]"
    by simp
  with r2 have "\<exists>report2. fst (build_report ''/x'' ?s2) = Inr report2
        \<and> getitem report2 ''credentials'' = Inr (PDict [(''credentials_path'', PStr ''/x''),
               (''credentials_exists'', PBool False)])"
    by simp
  with e ok show ?thesis by blast
qed

section \<open>The timestamp\<close>

lemma digit_char_props: "d < 10 \<Longrightarrow> is_digit (digit_char d) \<and> digit_value (digit_char d) = d"
proof -
  assume "d < 10"
  then have "d \<in> {0,1,2,3,4,5,6,7,8,9}" by auto
  then show ?thesis
    by (auto simp add: digit_char_def is_digit_def digit_value_def)
qed

lemma nat_digits_props:
  "list_all is_digit (nat_digits n) \<and> read_nat (nat_digits n) = n \<and> nat_digits n \<noteq> []"
proof (induction n rule: nat_digits.induct)
  case (1 n)
  show ?case
  proof (cases "n < 10")
    case True
    then show ?thesis
      using digit_char_props [of n] by (simp add: nat_digits.simps [of n] read_nat_def)
  next
    case False
    have m: "n mod 10 < 10" by simp
    from False 1 digit_char_props [OF m] show ?thesis
      by (simp add: nat_digits.simps [of n] read_nat_def)
  qed
qed

lemma nat_digits_length: "n < 10 ^ w \<Longrightarrow> 0 < w \<Longrightarrow> length (nat_digits n) \<le> w"
proof (induction n arbitrary: w rule: nat_digits.induct)
  case (1 n)
  show ?case
  proof (cases "n < 10")
    case True
    with 1 show ?thesis by (simp add: nat_digits.simps [of n])
  next
    case False
    with "1.prems" obtain v where w: "w = Suc v" by (cases w) auto
    with False "1.prems" have v: "0 < v" by (cases v) auto
    from "1.prems" w have "n div 10 < 10 ^ v"
      by (simp add: less_mult_imp_div_less mult.commute)
    with "1.IH" [OF False this v] False w show ?thesis
      by (simp add: nat_digits.simps [of n])
  qed
qed

lemma read_nat_zeros: "read_nat (replicate k CHR ''0'' @ s) = read_nat s"
  by (induction k) (simp_all add: read_nat_def digit_value_def)

lemma list_all_replicate_zero: "list_all is_digit (replicate k CHR ''0'')"
  by (induction k) (simp_all add: is_digit_def)

lemma zero_pad_props:
  assumes "n < 10 ^ w" "0 < w"
  shows "length (zero_pad w n) = w" "list_all is_digit (zero_pad w n)"
    "read_nat (zero_pad w n) = n"
  using nat_digits_length [OF assms] nat_digits_props [of n]
  by (simp_all add: zero_pad_def read_nat_zeros list_all_replicate_zero)

lemma take_digits_zero_pad:
  "n < 10 ^ w \<Longrightarrow> 0 < w \<Longrightarrow> take_digits w (zero_pad w n @ r) = Some (n, r)"
  by (simp add: take_digits_def zero_pad_props)

lemma parse_timestamp_isoformat:
  assumes "valid_datetime dt"
  shows "parse_timestamp (isoformat dt @ ''Z'') = Some dt"
proof -
  from assms have b: "year dt < 10000" "month dt < 100" "day dt < 100" "hour dt < 100"
    "minute dt < 100" "second dt < 100" "microsecond dt < 1000000"
    by (simp_all add: valid_datetime_def)
  show ?thesis
    by (simp add: parse_timestamp_def isoformat_def take_digits_zero_pad b expect_def
          take_digits_zero_pad [where r = "[]", simplified])
qed

lemma isoformat_length:
  assumes "valid_datetime dt"
  shows "length (isoformat dt) = (if microsecond dt = 0 then 19 else 26)"
proof -
  from assms have b: "year dt < 10 ^ 4" "month dt < 10 ^ 2" "day dt < 10 ^ 2" "hour dt < 10 ^ 2"
    "minute dt < 10 ^ 2" "second dt < 10 ^ 2" "microsecond dt < 10 ^ 6"
    by (simp_all add: valid_datetime_def)
  show ?thesis
    by (simp add: isoformat_def zero_pad_props(1) [OF b(1)] zero_pad_props(1) [OF b(2)]
          zero_pad_props(1) [OF b(3)] zero_pad_props(1) [OF b(4)] zero_pad_props(1) [OF b(5)]
          zero_pad_props(1) [OF b(6)] zero_pad_props(1) [OF b(7)])
qed

text \<open>
  Claim C8. Whenever \<open>collect_runtime_info\<close> returns, its \<open>timestamp_utc\<close> field is the
  host's current UTC time in ISO-8601 format with the literal suffix \<open>Z\<close>: reading the
  string as \<open>YYYY-MM-DDTHH:MM:SS[.ffffff]Z\<close> gives back the clock's value, to the second
  when the microseconds are zero and to the microsecond otherwise.
\<close>

theorem collect_runtime_info_timestamp:
  assumes "os_getcwd h = Inr cwd" and "valid_datetime (utcnow h)"
  shows "\<exists>info ts. collect_runtime_info h = Inr info
           \<and> getitem info ''timestamp_utc'' = Inr (PStr ts)
           \<and> ts = isoformat (utcnow h) @ ''Z''
           \<and> parse_timestamp ts = Some (utcnow h)
           \<and> length ts = (if microsecond (utcnow h) = 0 then 20 else 27)"
  using assms
  by (simp add: collect_runtime_info_def parse_timestamp_isoformat isoformat_length)

lemma example_isoformat: "isoformat (utcnow example_host) = ''2017-09-04T07:05:09.001234''"
  by code_simp

theorem collect_runtime_info_timestamp_witness:
  "os_getcwd example_host = Inr ''/home/pi'' \<and> valid_datetime (utcnow example_host)
   \<and> (\<exists>info. collect_runtime_info example_host = Inr info
         \<and> getitem info ''timestamp_utc'' = Inr (PStr ''2017-09-04T07:05:09.001234Z'')
         \<and> parse_timestamp ''2017-09-04T07:05:09.001234Z'' = Some (utcnow example_host))"
proof -
  have c: "os_getcwd example_host = Inr ''/home/pi''"
    by (simp add: example_host_def)
  have v: "valid_datetime (utcnow example_host)"
    by (simp add: example_host_def valid_datetime_def)
  from collect_runtime_info_timestamp [OF c v] example_isoformat
  show ?thesis using c v by auto
qed

section \<open>Rendering the text report\<close>

lemma getitem_field:
  "has_fields v ks \<Longrightarrow> k \<in> set ks \<Longrightarrow> getitem v k = Inr (field v k)"
  by (cases v) (auto simp add: list_all_iff dict_get_def)

lemma bullets_shape:
  assumes "has_fields report secs" "''reflection'' \<in> set secs"
    and "has_fields (field report ''reflection'') ks" "k \<in> set ks"
    and "is_list (field (field report ''reflection'') k)"
  shows "bullets report k =
           Inr (map bullet_line (elements (field (field report ''reflection'') k)))"
proof -
  from assms(5) obtain es where es: "field (field report ''reflection'') k = PList es"
    by (cases "field (field report ''reflection'') k") auto
  show ?thesis
    using getitem_field [OF assms(1,2)] getitem_field [OF assms(3,4)] es
    by (simp add: bullets_def result_bind_def bullet_line_def)
qed

lemma field_line_shape:
  assumes "has_fields report secs" "sec \<in> set secs"
    and "has_fields (field report sec) ks" "k \<in> set ks"
  shows "field_line [Lit p, Field k] report sec = Inr (p @ py_str (field (field report sec) k))"
proof -
  from assms(3) obtain d where d: "field report sec = PDict d"
    by (cases "field report sec") auto
  with assms(3,4) obtain v where v: "map_of d k = Some v"
    by (auto simp add: list_all_iff)
  show ?thesis
    using getitem_field [OF assms(1,2)] d v
    by (simp add: field_line_def result_bind_def dict_get_def)
qed

lemma format_device_line:
  assumes "has_fields device [''index'', ''name'', ''hostapi'', ''max_input_channels'',
             ''max_output_channels'', ''default_samplerate'']"
  shows "format_kw device_template device = Inr (device_line device)"
proof -
  from assms obtain d where d: "device = PDict d"
    by (cases device) auto
  with assms show ?thesis
    by (auto simp add: device_template_def device_line_def result_bind_def dict_get_def)
qed

lemma device_lines_shape:
  "list_all (\<lambda>device. has_fields device [''index'', ''name'', ''hostapi'',
       ''max_input_channels'', ''max_output_channels'', ''default_samplerate'']) ds
   \<Longrightarrow> map_result (format_kw device_template) ds = Inr (map device_line ds)"
  by (induction ds) (simp_all add: format_device_line result_bind_def)

lemma render_lines_shape:
  assumes "report_shape report"
  shows "render_lines report = Inr
    ([''Google Assistant SDK self-diagnostics'', [],
      ''Reflection:'',
      ''  Philosophy:'']
     @ map bullet_line (elements (field (field report ''reflection'') ''philosophy''))
     @ [''  Existential questions:'']
     @ map bullet_line (elements (field (field report ''reflection'') ''existential_questions''))
     @ [''  Conversational prompts:'']
     @ map bullet_line (elements (field (field report ''reflection'') ''conversational_prompts''))
     @ [''  Learning notes:'']
     @ map bullet_line (elements (field (field report ''reflection'') ''learning_notes''))
     @ [''  Grounding:'']
     @ map bullet_line (elements (field (field report ''reflection'') ''grounding''))
     @ [[],
        ''Runtime:'',
        ''  Python: '' @ py_str (field (field report ''runtime'') ''python_version''),
        ''  Executable: '' @ py_str (field (field report ''runtime'') ''executable''),
        ''  Platform: '' @ py_str (field (field report ''runtime'') ''platform''),
        ''  CWD: '' @ py_str (field (field report ''runtime'') ''cwd''),
        ''  Timestamp (UTC): '' @ py_str (field (field report ''runtime'') ''timestamp_utc''),
        [],
        ''Audio defaults:'',
        ''  Sample rate: '' @ py_str (field (field report ''audio_defaults'') ''sample_rate''),
        ''  Sample width: '' @ py_str (field (field report ''audio_defaults'') ''sample_width''),
        ''  Iter size: '' @ py_str (field (field report ''audio_defaults'') ''iter_size''),
        ''  Device block size: ''
          @ py_str (field (field report ''audio_defaults'') ''device_block_size''),
        ''  Device flush size: ''
          @ py_str (field (field report ''audio_defaults'') ''device_flush_size''),
        ''  Default input device: ''
          @ py_str (field (field report ''audio_defaults'') ''default_input_device''),
        ''  Default output device: ''
          @ py_str (field (field report ''audio_defaults'') ''default_output_device''),
        [],
        ''Credentials:'',
        ''  Path: '' @ py_str (field (field report ''credentials'') ''credentials_path''),
        ''  Exists: '' @ py_str (field (field report ''credentials'') ''credentials_exists''),
        [],
        ''Audio devices:'']
     @ map device_line (elements (field report ''audio_devices'')))"
proof -
  from assms have secs: "has_fields report
       [''runtime'', ''audio_defaults'', ''audio_devices'', ''credentials'', ''reflection'']"
    and refl: "has_fields (field report ''reflection'')
       [''philosophy'', ''existential_questions'', ''conversational_prompts'',
        ''learning_notes'', ''grounding'']"
    and lists: "list_all (\<lambda>k. is_list (field (field report ''reflection'') k))
       [''philosophy'', ''existential_questions'', ''conversational_prompts'',
        ''learning_notes'', ''grounding'']"
    and rt: "has_fields (field report ''runtime'')
       [''timestamp_utc'', ''python_version'', ''executable'', ''platform'', ''cwd'']"
    and ad: "has_fields (field report ''audio_defaults'')
       [''sample_rate'', ''sample_width'', ''iter_size'', ''device_block_size'',
        ''device_flush_size'', ''default_input_device'', ''default_output_device'']"
    and cr: "has_fields (field report ''credentials'') [''credentials_path'', ''credentials_exists'']"
    and dl: "is_list (field report ''audio_devices'')"
    and ds: "list_all (\<lambda>device. has_fields device
         [''index'', ''name'', ''hostapi'', ''max_input_channels'', ''max_output_channels'',
          ''default_samplerate''])
       (elements (field report ''audio_devices''))"
    by (simp_all add: report_shape_def)
  have b: "bullets report k =
             Inr (map bullet_line (elements (field (field report ''reflection'') k)))"
    if "k \<in> set [''philosophy'', ''existential_questions'', ''conversational_prompts'',
                   ''learning_notes'', ''grounding'']" for k
    using bullets_shape [OF secs _ refl that] lists that by auto
  have r: "field_line [Lit p, Field k] report ''runtime''
             = Inr (p @ py_str (field (field report ''runtime'') k))"
    if "k \<in> set [''timestamp_utc'', ''python_version'', ''executable'', ''platform'', ''cwd'']"
    for p k
    using field_line_shape [OF secs _ rt that] by simp
  have a: "field_line [Lit p, Field k] report ''audio_defaults''
             = Inr (p @ py_str (field (field report ''audio_defaults'') k))"
    if "k \<in> set [''sample_rate'', ''sample_width'', ''iter_size'', ''device_block_size'',
        ''device_flush_size'', ''default_input_device'', ''default_output_device'']"
    for p k
    using field_line_shape [OF secs _ ad that] by simp
  have c: "field_line [Lit p, Field k] report ''credentials''
             = Inr (p @ py_str (field (field report ''credentials'') k))"
    if "k \<in> set [''credentials_path'', ''credentials_exists'']"
    for p k
    using field_line_shape [OF secs _ cr that] by simp
  have g: "getitem report ''audio_devices'' = Inr (field report ''audio_devices'')"
    using getitem_field [OF secs] by simp
  from dl obtain devices where dv: "field report ''audio_devices'' = PList devices"
    by (cases "field report ''audio_devices''") auto
  have d: "map_result (format_kw device_template) devices = Inr (map device_line devices)"
    using device_lines_shape ds dv by simp
  show ?thesis
    by (simp add: render_lines_def b r a c g dv d result_bind_def)
qed

lemma split_on_prefix: "c \<notin> set l \<Longrightarrow> split_on c (l @ c # r) = l # split_on c r"
  by (induction l) auto

lemma split_on_none: "c \<notin> set l \<Longrightarrow> split_on c l = [l]"
  by (induction l) auto

lemma split_on_str_join:
  "ls \<noteq> [] \<Longrightarrow> list_all (\<lambda>l. c \<notin> set l) ls \<Longrightarrow> split_on c (str_join [c] ls) = ls"
  by (induction "[c]" ls rule: str_join.induct) (simp_all add: split_on_none split_on_prefix)

lemma build_report_well_formed:
  assumes "fst (build_report P s) = Inr report"
  shows "well_formed_report report"
proof -
  have dev: "list_all (\<lambda>device. has_fields device
         [''index'', ''name'', ''hostapi'', ''max_input_channels'', ''max_output_channels'',
          ''default_samplerate''])
       (map (\<lambda>(index, device). format_device device index) xs)" for xs
    by (induction xs) (auto simp add: format_device_def)
  from assms show ?thesis
    by (auto simp add: build_report_cases collect_runtime_info_def collect_audio_defaults_def
          collect_audio_devices_def collect_credentials_status_def collect_reflection_def
          well_formed_report_def report_shape_def dict_get_def dev
          split: sum.splits)
qed

lemma report_of_eq:
  assumes "os_getcwd h = Inr cwd" and "sd_query_devices h = Inr ds"
    and "collect_reflection = Inr reflection"
  shows "report_of P h = PDict
     [(''runtime'', PDict
        [(''timestamp_utc'', PStr (isoformat (utcnow h) @ ''Z'')),
         (''python_version'', PStr (sys_version h)),
         (''executable'', PStr (sys_executable h)),
         (''platform'', PStr (platform_platform h)),
         (''cwd'', PStr cwd)]),
      (''audio_defaults'', PDict
        [(''sample_rate'', PInt (DEFAULT_AUDIO_SAMPLE_RATE h)),
         (''sample_width'', PInt (DEFAULT_AUDIO_SAMPLE_WIDTH h)),
         (''iter_size'', PInt (DEFAULT_AUDIO_ITER_SIZE h)),
         (''device_block_size'', PInt (DEFAULT_AUDIO_DEVICE_BLOCK_SIZE h)),
         (''device_flush_size'', PInt (DEFAULT_AUDIO_DEVICE_FLUSH_SIZE h)),
         (''default_input_device'', fst (sd_default_device h)),
         (''default_output_device'', snd (sd_default_device h))]),
      (''audio_devices'',
         PList (map (\<lambda>(index, device). format_device device index) (List.enumerate 0 ds))),
      (''credentials'', PDict
        [(''credentials_path'', PStr P),
         (''credentials_exists'', PBool (os_path_exists h P))]),
      (''reflection'', reflection)]"
  unfolding report_of_def build_report_cases assms(3)
  using assms(1,2)
  by (simp add: collect_runtime_info_def collect_audio_defaults_def collect_audio_devices_def
        collect_credentials_status_def)

lemma report_of_well_formed:
  assumes "os_getcwd h = Inr cwd" and "sd_query_devices h = Inr ds"
  shows "well_formed_report (report_of P h)"
proof -
  from assms have "\<exists>report. fst (build_report P \<lparr>env = h, invoked = []\<rparr>) = Inr report"
    by (simp add: build_report_cases collect_runtime_info_def collect_audio_defaults_def
          collect_audio_devices_def collect_credentials_status_def collect_reflection_def)
  then obtain report where r: "fst (build_report P \<lparr>env = h, invoked = []\<rparr>) = Inr report"
    by blast
  then have "report_of P h = report"
    by (simp add: report_of_def)
  with build_report_well_formed [OF r] show ?thesis by simp
qed

lemma example_clock: "isoformat (utcnow example_host) = ''2017-09-04T07:05:09.001234''"
  by code_simp

lemma example_numbers:
  "str_int 0 = ''0''" "str_int 1 = ''1''" "str_int 2 = ''2''" "str_int 16000 = ''16000''"
  "str_int 3200 = ''3200''" "str_int 6400 = ''6400''" "str_int 25600 = ''25600''"
  "str_int (- 1) = ''-1''"
  by (simp_all add: str_int_def nat_digits.simps digit_char_def)

lemma example_host_fields:
  "sys_version example_host = ''3.6.2 (default, Jul 17 2017, 16:44:45)''"
  "sys_executable example_host = ''/usr/bin/python3''"
  "platform_platform example_host = ''Linux-4.4.0-x86_64-with-debian''"
  "os_getcwd example_host = Inr ''/home/pi''"
  "sd_query_devices example_host = Inr example_devices"
  "sd_default_device example_host = (PInt (- 1), PInt 1)"
  "os_path_exists example_host = (\<lambda>p. p = ''/home/pi/credentials.json'')"
  "DEFAULT_AUDIO_SAMPLE_RATE example_host = 16000"
  "DEFAULT_AUDIO_SAMPLE_WIDTH example_host = 2"
  "DEFAULT_AUDIO_ITER_SIZE example_host = 3200"
  "DEFAULT_AUDIO_DEVICE_BLOCK_SIZE example_host = 6400"
  "DEFAULT_AUDIO_DEVICE_FLUSH_SIZE example_host = 25600"
  by (simp_all add: example_host_def)

lemma no_devices_host_fields:
  "utcnow no_devices_host = utcnow example_host"
  "sys_version no_devices_host = sys_version example_host"
  "sys_executable no_devices_host = sys_executable example_host"
  "platform_platform no_devices_host = platform_platform example_host"
  "os_getcwd no_devices_host = os_getcwd example_host"
  "sd_query_devices no_devices_host = Inr []"
  "sd_default_device no_devices_host = sd_default_device example_host"
  "os_path_exists no_devices_host = os_path_exists example_host"
  "DEFAULT_AUDIO_SAMPLE_RATE no_devices_host = DEFAULT_AUDIO_SAMPLE_RATE example_host"
  "DEFAULT_AUDIO_SAMPLE_WIDTH no_devices_host = DEFAULT_AUDIO_SAMPLE_WIDTH example_host"
  "DEFAULT_AUDIO_ITER_SIZE no_devices_host = DEFAULT_AUDIO_ITER_SIZE example_host"
  "DEFAULT_AUDIO_DEVICE_BLOCK_SIZE no_devices_host = DEFAULT_AUDIO_DEVICE_BLOCK_SIZE example_host"
  "DEFAULT_AUDIO_DEVICE_FLUSH_SIZE no_devices_host = DEFAULT_AUDIO_DEVICE_FLUSH_SIZE example_host"
  by (simp_all add: no_devices_host_def)

lemma split_on_nonempty: "split_on c s \<noteq> []"
  by (induction s) (auto split: list.splits)

lemma split_on_append: "split_on c (l @ c # r) = split_on c l @ split_on c r"
  by (induction l) (auto split: list.splits simp add: split_on_nonempty)

lemma split_on_str_join_concat:
  "ls \<noteq> [] \<Longrightarrow> split_on c (str_join [c] ls) = concat (map (split_on c) ls)"
  by (induction "[c]" ls rule: str_join.induct) (simp_all add: split_on_append)

lemma render_lines_section_lines:
  "report_shape report \<Longrightarrow> render_lines report = Inr (section_lines report)"
  by (simp add: render_lines_shape section_lines_def)

lemma output_lines_section_lines:
  assumes "report_shape report"
  shows "output_lines report = concat (map (split_on (CHR 0x0A)) (section_lines report))"
proof -
  have "section_lines report \<noteq> []"
    by (simp add: section_lines_def)
  then show ?thesis
    by (simp add: output_lines_def render_text_report_def render_lines_section_lines [OF assms]
          result_bind_def split_on_str_join_concat)
qed

lemma concat_split_on_none:
  "list_all (\<lambda>l. c \<notin> set l) ls \<Longrightarrow> concat (map (split_on c) ls) = ls"
  by (induction ls) (simp_all add: split_on_none)

lemma last_output_lines:
  assumes "report_shape report" and "elements (field report ''audio_devices'') = []"
  shows "last (output_lines report) = ''Audio devices:''"
proof -
  obtain front where "section_lines report = front @ [''Audio devices:'']"
    by (simp add: section_lines_def assms(2))
  then show ?thesis
    by (simp add: output_lines_section_lines [OF assms(1)])
qed

text \<open>
  Claim C4, amended. For every report of the right shape, the renderer joins with newline
  characters the entries of \<open>section_lines\<close>, in their order: the title and a blank
  line, the reflection section with its five sub-lists, then, each after a blank line, the
  runtime section, the audio defaults, the credentials and the audio devices, one entry
  \<open>[index] name (in:N out:M, rate:R)\<close> per device. The lines of the output are the lines
  of these entries, one after the other. So when no rendered field contains a newline
  character the lines of the output are the entries themselves, and each device is one
  line. Without a device the last line of the output is the header \<open>Audio devices:\<close>.
\<close>

theorem render_text_report_sections:
  assumes "report_shape report"
  shows "render_text_report report = Inr (str_join [CHR 0x0A] (section_lines report))
     \<and> output_lines report = concat (map (split_on (CHR 0x0A)) (section_lines report))
     \<and> (list_all (\<lambda>l. CHR 0x0A \<notin> set l) (section_lines report) \<longrightarrow>
          output_lines report = section_lines report)
     \<and> (elements (field report ''audio_devices'') = [] \<longrightarrow>
          last (output_lines report) = ''Audio devices:'')"
proof -
  note o = output_lines_section_lines [OF assms]
  have r: "render_text_report report = Inr (str_join [CHR 0x0A] (section_lines report))"
    by (simp add: render_text_report_def render_lines_section_lines [OF assms] result_bind_def)
  have same: "list_all (\<lambda>l. CHR 0x0A \<notin> set l) (section_lines report) \<longrightarrow>
          output_lines report = section_lines report"
    by (simp add: o concat_split_on_none)
  have none: "elements (field report ''audio_devices'') = [] \<longrightarrow>
          last (output_lines report) = ''Audio devices:''"
    using last_output_lines [OF assms] by blast
  from r o same none show ?thesis by blast
qed

lemma two_line_name_host_fields:
  "utcnow two_line_name_host = utcnow example_host"
  "sys_version two_line_name_host = sys_version example_host"
  "sys_executable two_line_name_host = sys_executable example_host"
  "platform_platform two_line_name_host = platform_platform example_host"
  "os_getcwd two_line_name_host = os_getcwd example_host"
  "sd_query_devices two_line_name_host = Inr
     [[(''name'', PStr (''Line In'' @ [CHR 0x0A] @ ''(USB Audio)'')), (''hostapi'', PInt 0),
       (''max_input_channels'', PInt 2), (''max_output_channels'', PInt 0),
       (''default_samplerate'', PFloat ''44100.0'')]]"
  "sd_default_device two_line_name_host = sd_default_device example_host"
  "os_path_exists two_line_name_host = os_path_exists example_host"
  "DEFAULT_AUDIO_SAMPLE_RATE two_line_name_host = DEFAULT_AUDIO_SAMPLE_RATE example_host"
  "DEFAULT_AUDIO_SAMPLE_WIDTH two_line_name_host = DEFAULT_AUDIO_SAMPLE_WIDTH example_host"
  "DEFAULT_AUDIO_ITER_SIZE two_line_name_host = DEFAULT_AUDIO_ITER_SIZE example_host"
  "DEFAULT_AUDIO_DEVICE_BLOCK_SIZE two_line_name_host = DEFAULT_AUDIO_DEVICE_BLOCK_SIZE example_host"
  "DEFAULT_AUDIO_DEVICE_FLUSH_SIZE two_line_name_host = DEFAULT_AUDIO_DEVICE_FLUSH_SIZE example_host"
  by (simp_all add: two_line_name_host_def)

theorem render_text_report_sections_witness:
  "report_shape (report_of ''/x'' no_devices_host)
   \<and> elements (field (report_of ''/x'' no_devices_host) ''audio_devices'') = []
   \<and> list_all (\<lambda>l. CHR 0x0A \<notin> set l) (section_lines (report_of ''/x'' no_devices_host))
   \<and> last (output_lines (report_of ''/x'' no_devices_host)) = ''Audio devices:''
   \<and> output_lines (report_of ''/x'' no_devices_host) =
       [''Google Assistant SDK self-diagnostics'',
        [],
        ''Reflection:'',
        ''  Philosophy:'',
        ''    - I am a tool that translates user intent into assistant behavior.'',
        ''    - My value comes from clarity, reliability, and respect for users.'',
        ''    - I improve by observing outcomes, not by possessing awareness.'',
        ''  Existential questions:'',
        ''    - What does it mean to be helpful without experience?'',
        ''    - How can I communicate limits while still empowering users?'',
        ''    - What responsibilities come with acting on behalf of humans?'',
        ''  Conversational prompts:'',
        ''    - How can I help you right now?'',
        ''    - Would you like me to explain what I can and cannot do?'',
        ''    - Should I summarize options before taking action?'',
        ''  Learning notes:'',
        ''    - I can learn from feedback you provide within this session.'',
        ''    - I adapt to preferences by repeating what works and avoiding what does not.'',
        ''    - I do not retain personal data across sessions.'',
        ''  Grounding:'',
        ''    - I do not have consciousness, emotions, or personal identity.'',
        ''    - My responses are generated from patterns in data and context.'',
        [],
        ''Runtime:'',
        ''  Python: 3.6.2 (default, Jul 17 2017, 16:44:45)'',
        ''  Executable: /usr/bin/python3'',
        ''  Platform: Linux-4.4.0-x86_64-with-debian'',
        ''  CWD: /home/pi'',
        ''  Timestamp (UTC): 2017-09-04T07:05:09.001234Z'',
        [],
        ''Audio defaults:'',
        ''  Sample rate: 16000'',
        ''  Sample width: 2'',
        ''  Iter size: 3200'',
        ''  Device block size: 6400'',
        ''  Device flush size: 25600'',
        ''  Default input device: -1'',
        ''  Default output device: 1'',
        [],
        ''Credentials:'',
        ''  Path: /x'',
        ''  Exists: False'',
        [],
        ''Audio devices:'']
   \<and> report_shape (report_of ''/x'' example_host)
   \<and> drop 44 (output_lines (report_of ''/x'' example_host)) =
       [''  [0] Built-in Mic (in:2 out:0, rate:44100.0)'',
        ''  [1] HDMI (in:None out:None, rate:None)'']"
proof -
  let ?N = "report_of ''/x'' no_devices_host"
  let ?E = "report_of ''/x'' example_host"
  have cwd: "os_getcwd no_devices_host = Inr ''/home/pi''"
    and devs: "sd_query_devices no_devices_host = Inr []"
    by (simp_all add: no_devices_host_fields example_host_fields)
  have shape: "report_shape ?N"
    using report_of_well_formed [OF cwd devs, of "''/x''"]
    by (simp add: well_formed_report_def)
  note n = report_of_eq [OF cwd devs collect_reflection_def, of "''/x''"]
  have none: "elements (field ?N ''audio_devices'') = []"
    by (simp add: n dict_get_def)
  have sl: "section_lines ?N =
       [''Google Assistant SDK self-diagnostics'',
        [],
        ''Reflection:'',
        ''  Philosophy:'',
        ''    - I am a tool that translates user intent into assistant behavior.'',
        ''    - My value comes from clarity, reliability, and respect for users.'',
        ''    - I improve by observing outcomes, not by possessing awareness.'',
        ''  Existential questions:'',
        ''    - What does it mean to be helpful without experience?'',
        ''    - How can I communicate limits while still empowering users?'',
        ''    - What responsibilities come with acting on behalf of humans?'',
        ''  Conversational prompts:'',
        ''    - How can I help you right now?'',
        ''    - Would you like me to explain what I can and cannot do?'',
        ''    - Should I summarize options before taking action?'',
        ''  Learning notes:'',
        ''    - I can learn from feedback you provide within this session.'',
        ''    - I adapt to preferences by repeating what works and avoiding what does not.'',
        ''    - I do not retain personal data across sessions.'',
        ''  Grounding:'',
        ''    - I do not have consciousness, emotions, or personal identity.'',
        ''    - My responses are generated from patterns in data and context.'',
        [],
        ''Runtime:'',
        ''  Python: 3.6.2 (default, Jul 17 2017, 16:44:45)'',
        ''  Executable: /usr/bin/python3'',
        ''  Platform: Linux-4.4.0-x86_64-with-debian'',
        ''  CWD: /home/pi'',
        ''  Timestamp (UTC): 2017-09-04T07:05:09.001234Z'',
        [],
        ''Audio defaults:'',
        ''  Sample rate: 16000'',
        ''  Sample width: 2'',
        ''  Iter size: 3200'',
        ''  Device block size: 6400'',
        ''  Device flush size: 25600'',
        ''  Default input device: -1'',
        ''  Default output device: 1'',
        [],
        ''Credentials:'',
        ''  Path: /x'',
        ''  Exists: False'',
        [],
        ''Audio devices:'']"
    by (simp add: section_lines_def n dict_get_def bullet_line_def no_devices_host_fields
          example_host_fields example_clock example_numbers)
  have plain: "list_all (\<lambda>l. CHR 0x0A \<notin> set l) (section_lines ?N)"
    unfolding sl by simp
  from render_text_report_sections [OF shape] plain none
  have out: "output_lines ?N = section_lines ?N"
    and final: "last (output_lines ?N) = ''Audio devices:''"
    by blast+
  have shape2: "report_shape ?E"
    using report_of_well_formed [OF example_host_fields(4,5), of "''/x''"]
    by (simp add: well_formed_report_def)
  note e = report_of_eq [OF example_host_fields(4,5) collect_reflection_def, of "''/x''"]
  have plain2: "list_all (\<lambda>l. CHR 0x0A \<notin> set l) (section_lines ?E)"
    by (simp add: section_lines_def e dict_get_def bullet_line_def device_line_def
          format_device_def example_devices_def enumerate_eq_zip upt_rec
          example_host_fields example_clock example_numbers)
  with render_text_report_sections [OF shape2]
  have "output_lines ?E = section_lines ?E"
    by blast
  then have devices: "drop 44 (output_lines ?E) =
       [''  [0] Built-in Mic (in:2 out:0, rate:44100.0)'',
        ''  [1] HDMI (in:None out:None, rate:None)'']"
    by (simp add: section_lines_def e dict_get_def device_line_def
          format_device_def example_devices_def enumerate_eq_zip upt_rec
          example_numbers)
  from shape none plain final out [unfolded sl] shape2 devices show ?thesis
    by blast
qed

text \<open>
  The claim as the specification states it fails for a device whose name has two lines: the
  output has 46 lines, the header \<open>Audio devices:\<close> is the 44th, and the one device of
  the host takes the two lines after it, neither of which has the form of a device line.
\<close>

theorem render_text_report_sections_counterexample:
  "well_formed_report (report_of ''/x'' two_line_name_host)
   \<and> length (elements (field (report_of ''/x'' two_line_name_host) ''audio_devices'')) = 1
   \<and> length (output_lines (report_of ''/x'' two_line_name_host)) = 46
   \<and> output_lines (report_of ''/x'' two_line_name_host) ! 43 = ''Audio devices:''
   \<and> drop 44 (output_lines (report_of ''/x'' two_line_name_host)) =
       [''  [0] Line In'', ''(USB Audio) (in:2 out:0, rate:44100.0)'']"
proof -
  let ?R = "report_of ''/x'' two_line_name_host"
  have cwd: "os_getcwd two_line_name_host = Inr ''/home/pi''"
    by (simp add: two_line_name_host_fields example_host_fields)
  note devs = two_line_name_host_fields(6)
  note r = report_of_eq [OF cwd devs collect_reflection_def, of "''/x''"]
  have wf: "well_formed_report ?R"
    by (rule report_of_well_formed [OF cwd devs])
  then have shape: "report_shape ?R"
    by (simp add: well_formed_report_def)
  have one: "length (elements (field ?R ''audio_devices'')) = 1"
    by (simp add: r dict_get_def)
  define front where "front = take 44 (section_lines ?R)"
  have sl: "section_lines ?R
              = front @ [''  [0] Line In'' @ [CHR 0x0A] @ ''(USB Audio) (in:2 out:0, rate:44100.0)'']"
    unfolding front_def
    by (simp add: section_lines_def r dict_get_def bullet_line_def device_line_def
          format_device_def enumerate_eq_zip upt_rec example_numbers)
  have plain: "list_all (\<lambda>l. CHR 0x0A \<notin> set l) front"
    unfolding front_def
    by (simp add: section_lines_def r dict_get_def bullet_line_def
          two_line_name_host_fields example_host_fields example_clock example_numbers)
  have len: "length front = 44"
    unfolding front_def
    by (simp add: section_lines_def r dict_get_def)
  have header: "front ! 43 = ''Audio devices:''"
    unfolding front_def
    by (simp add: section_lines_def r dict_get_def)
  have "output_lines ?R = concat (map (split_on (CHR 0x0A)) (section_lines ?R))"
    by (rule output_lines_section_lines [OF shape])
  also have "\<dots> = front @ [''  [0] Line In'', ''(USB Audio) (in:2 out:0, rate:44100.0)'']"
    unfolding sl by (simp add: concat_split_on_none [OF plain])
  finally have out: "output_lines ?R
      = front @ [''  [0] Line In'', ''(USB Audio) (in:2 out:0, rate:44100.0)'']" .
  have total: "length (output_lines ?R) = 46"
    unfolding out by (simp add: len)
  have at: "output_lines ?R ! 43 = ''Audio devices:''"
    unfolding out by (simp add: nth_append len header)
  have last_two: "drop 44 (output_lines ?R)
                  = [''  [0] Line In'', ''(USB Audio) (in:2 out:0, rate:44100.0)'']"
    unfolding out by (simp add: len)
  show ?thesis
    by (rule conjI [OF wf conjI [OF one conjI [OF total conjI [OF at last_two]]]])
qed

section \<open>Counting the lines of the text report\<close>

lemma length_split_on: "length (split_on c s) = Suc (count_list s c)"
  by (induction s) (auto split: list.splits simp add: split_on_nonempty)

lemma count_list_append: "count_list (xs @ ys) c = count_list xs c + count_list ys c"
  by (induction xs) auto

lemma count_list_str_join:
  "ls \<noteq> [] \<Longrightarrow>
     Suc (count_list (str_join [c] ls) c) = length ls + sum_list (map (\<lambda>l. count_list l c) ls)"
  by (induction "[c]" ls rule: str_join.induct) (simp_all add: count_list_append)

lemma hd_split_on_str_join:
  "c \<notin> set l \<Longrightarrow> hd (split_on c (str_join [c] (l # ls))) = l"
  by (cases ls) (simp_all add: split_on_none split_on_prefix)

lemma render_lines_well_formed:
  assumes "well_formed_report report"
  shows "render_lines report = Inr
    (head_lines
     @ [[],
        ''Runtime:'',
        ''  Python: '' @ py_str (field (field report ''runtime'') ''python_version''),
        ''  Executable: '' @ py_str (field (field report ''runtime'') ''executable''),
        ''  Platform: '' @ py_str (field (field report ''runtime'') ''platform''),
        ''  CWD: '' @ py_str (field (field report ''runtime'') ''cwd''),
        ''  Timestamp (UTC): '' @ py_str (field (field report ''runtime'') ''timestamp_utc''),
        [],
        ''Audio defaults:'',
        ''  Sample rate: '' @ py_str (field (field report ''audio_defaults'') ''sample_rate''),
        ''  Sample width: '' @ py_str (field (field report ''audio_defaults'') ''sample_width''),
        ''  Iter size: '' @ py_str (field (field report ''audio_defaults'') ''iter_size''),
        ''  Device block size: ''
          @ py_str (field (field report ''audio_defaults'') ''device_block_size''),
        ''  Device flush size: ''
          @ py_str (field (field report ''audio_defaults'') ''device_flush_size''),
        ''  Default input device: ''
          @ py_str (field (field report ''audio_defaults'') ''default_input_device''),
        ''  Default output device: ''
          @ py_str (field (field report ''audio_defaults'') ''default_output_device''),
        [],
        ''Credentials:'',
        ''  Path: '' @ py_str (field (field report ''credentials'') ''credentials_path''),
        ''  Exists: '' @ py_str (field (field report ''credentials'') ''credentials_exists''),
        [],
        ''Audio devices:'']
     @ map device_line (elements (field report ''audio_devices'')))"
proof -
  from assms have shape: "report_shape report"
    and refl: "collect_reflection = Inr (field report ''reflection'')"
    by (simp_all add: well_formed_report_def)
  from refl [unfolded collect_reflection_def, symmetric]
  have rf: "field report ''reflection'' = projr collect_reflection"
    by (simp add: collect_reflection_def)
  show ?thesis
    unfolding render_lines_shape [OF shape] rf
    by (simp add: collect_reflection_def dict_get_def bullet_line_def head_lines_def)
qed

lemma output_lines_count:
  assumes "render_lines report = Inr lines" and "lines \<noteq> []"
  shows "length (output_lines report) = length lines + inner_newlines lines"
  using count_list_str_join [OF assms(2), of "CHR 0x0A"]
  by (simp add: output_lines_def render_text_report_def assms(1) result_bind_def
        inner_newlines_def length_split_on)

lemma two_line_version_host_fields:
  "utcnow two_line_version_host = utcnow example_host"
  "sys_version two_line_version_host =
     ''3.5.3 (default, Jan 19 2017, 14:11:04) '' @ [CHR 0x0A] @ ''[GCC 6.3.0 20170124]''"
  "sys_executable two_line_version_host = sys_executable example_host"
  "platform_platform two_line_version_host = platform_platform example_host"
  "os_getcwd two_line_version_host = os_getcwd example_host"
  "sd_query_devices two_line_version_host = sd_query_devices example_host"
  "sd_default_device two_line_version_host = sd_default_device example_host"
  "os_path_exists two_line_version_host = os_path_exists example_host"
  "DEFAULT_AUDIO_SAMPLE_RATE two_line_version_host = DEFAULT_AUDIO_SAMPLE_RATE example_host"
  "DEFAULT_AUDIO_SAMPLE_WIDTH two_line_version_host = DEFAULT_AUDIO_SAMPLE_WIDTH example_host"
  "DEFAULT_AUDIO_ITER_SIZE two_line_version_host = DEFAULT_AUDIO_ITER_SIZE example_host"
  "DEFAULT_AUDIO_DEVICE_BLOCK_SIZE two_line_version_host
     = DEFAULT_AUDIO_DEVICE_BLOCK_SIZE example_host"
  "DEFAULT_AUDIO_DEVICE_FLUSH_SIZE two_line_version_host
     = DEFAULT_AUDIO_DEVICE_FLUSH_SIZE example_host"
  by (simp_all add: two_line_version_host_def)

text \<open>
  Claim C10, amended. For every well-formed report with \<open>n\<close> audio devices, the renderer
  joins exactly \<open>44 + n\<close> entries with newlines: 44 fixed ones and one per device. The first
  22 are the title, a blank line and the reflection section with 3, 3, 3, 3 and 2 bullets,
  whatever the host. The first line of the output is the title. The output has one line per
  entry and one more for every newline character inside a rendered field; so it has exactly
  \<open>44 + n\<close> lines, the entries themselves, when no rendered field contains a newline.
\<close>

theorem render_text_report_line_count:
  assumes "well_formed_report report"
  shows "\<exists>lines. render_lines report = Inr lines
     \<and> render_text_report report = Inr (str_join [CHR 0x0A] lines)
     \<and> length lines = 44 + length (elements (field report ''audio_devices''))
     \<and> take 22 lines = head_lines
     \<and> hd (output_lines report) = ''Google Assistant SDK self-diagnostics''
     \<and> length (output_lines report) = length lines + inner_newlines lines
     \<and> (list_all (\<lambda>l. CHR 0x0A \<notin> set l) lines \<longrightarrow> output_lines report = lines)"
proof -
  note rl = render_lines_well_formed [OF assms]
  obtain lines where l: "render_lines report = Inr lines"
    and h: "lines = head_lines @ drop 22 lines" and t: "take 22 lines = head_lines"
    and n: "length lines = 44 + length (elements (field report ''audio_devices''))"
    using rl by (simp add: head_lines_def)
  from n have ne: "lines \<noteq> []" by auto
  have out: "render_text_report report = Inr (str_join [CHR 0x0A] lines)"
    by (simp add: render_text_report_def l result_bind_def)
  then have ol: "output_lines report = split_on (CHR 0x0A) (str_join [CHR 0x0A] lines)"
    by (simp add: output_lines_def)
  have first: "hd (output_lines report) = ''Google Assistant SDK self-diagnostics''"
    unfolding ol by (subst h) (simp add: head_lines_def hd_split_on_str_join del: str_join.simps)
  note cnt = output_lines_count [OF l ne]
  have same: "list_all (\<lambda>l. CHR 0x0A \<notin> set l) lines \<longrightarrow> output_lines report = lines"
    unfolding ol using split_on_str_join [OF ne] by simp
  from l out n t first cnt same show ?thesis by blast
qed

theorem render_text_report_line_count_witness:
  "well_formed_report (report_of ''/x'' example_host)
   \<and> length (elements (field (report_of ''/x'' example_host) ''audio_devices'')) = 2
   \<and> (\<exists>lines. render_lines (report_of ''/x'' example_host) = Inr lines
         \<and> list_all (\<lambda>l. CHR 0x0A \<notin> set l) lines
         \<and> output_lines (report_of ''/x'' example_host) = lines
         \<and> length (output_lines (report_of ''/x'' example_host)) = 46)"
proof -
  let ?R = "report_of ''/x'' example_host"
  note r = report_of_eq [OF example_host_fields(4,5) collect_reflection_def, of "''/x''"]
  have wf: "well_formed_report ?R"
    by (rule report_of_well_formed [OF example_host_fields(4,5)])
  have two: "length (elements (field ?R ''audio_devices'')) = 2"
    by (simp add: r dict_get_def example_devices_def)
  from render_text_report_line_count [OF wf]
  obtain lines where l: "render_lines ?R = Inr lines"
    and n: "length lines = 44 + length (elements (field ?R ''audio_devices''))"
    and same: "list_all (\<lambda>l. CHR 0x0A \<notin> set l) lines \<longrightarrow> output_lines ?R = lines"
    by blast
  from l [unfolded render_lines_well_formed [OF wf]]
  have nn: "list_all (\<lambda>l. CHR 0x0A \<notin> set l) lines"
    by (auto simp add: r dict_get_def head_lines_def device_line_def format_device_def
          example_devices_def enumerate_eq_zip upt_rec
          example_host_fields example_clock example_numbers)
  with same have o: "output_lines ?R = lines" by simp
  with n two have "length (output_lines ?R) = 46" by simp
  with wf two l nn o show ?thesis by blast
qed

theorem render_text_report_line_count_counterexample:
  "well_formed_report (report_of ''/x'' two_line_version_host)
   \<and> length (elements (field (report_of ''/x'' two_line_version_host) ''audio_devices'')) = 2
   \<and> length (output_lines (report_of ''/x'' two_line_version_host)) = 47"
proof -
  let ?R = "report_of ''/x'' two_line_version_host"
  have cwd: "os_getcwd two_line_version_host = Inr ''/home/pi''"
    and devs: "sd_query_devices two_line_version_host = Inr example_devices"
    by (simp_all add: two_line_version_host_fields example_host_fields)
  note r = report_of_eq [OF cwd devs collect_reflection_def, of "''/x''"]
  have wf: "well_formed_report ?R"
    by (rule report_of_well_formed [OF cwd devs])
  have two: "length (elements (field ?R ''audio_devices'')) = 2"
    by (simp add: r dict_get_def example_devices_def)
  note rl = render_lines_well_formed [OF wf]
  have "length (output_lines ?R) = 47"
    unfolding output_lines_count [OF rl, simplified]
    by (simp add: two inner_newlines_def r dict_get_def head_lines_def device_line_def
          format_device_def example_devices_def enumerate_eq_zip upt_rec
          two_line_version_host_fields example_host_fields example_clock example_numbers)
  with wf two show ?thesis by blast
qed

section \<open>The structured report parses back\<close>








































































end
